theory Spec2Isabelle
  imports Complex_Main
begin

section \<open>Outcomes of a call\<close>

text \<open>
  The errors of the mixture's interface.  A call either returns a value, raises one of
  these errors, or reads a vector outside its bounds: the inline methods of
  \<^verbatim>\<open>MultiPhase.h\<close> index \<^verbatim>\<open>std::vector\<close> and the dense
  matrix without a check, which C++ leaves undefined.  \<open>Undefined\<close> stands for that
  case, so it is a branch of the model and never a value.
\<close>

datatype error = InvalidStateError | InvalidInputError | SingularBasisError | ConvergenceError real

datatype 'a outcome = Value 'a | Raise error | Undefined

text \<open>\<^verbatim>\<open>doublereal\<close> is idealised as a real number: rounding is outside the model.\<close>

type_synonym doublereal = real

text \<open>Unchecked \<^verbatim>\<open>v[i]\<close> on a \<^verbatim>\<open>std::vector\<close>.\<close>

definition vec_at :: "'a list \<Rightarrow> nat \<Rightarrow> 'a outcome" where
  "vec_at v i = (if i < length v then Value (v ! i) else Undefined)"

text \<open>An index of type \<^verbatim>\<open>int\<close> used where \<^verbatim>\<open>size_t\<close> is expected: a negative
  one becomes an index beyond every vector.\<close>

definition vec_at_int :: "'a list \<Rightarrow> int \<Rightarrow> 'a outcome" where
  "vec_at_int v i = (if 0 \<le> i then vec_at v (nat i) else Undefined)"

text \<open>Sequencing: the first call that raises or is undefined ends the computation.\<close>

fun obind :: "'a outcome \<Rightarrow> ('a \<Rightarrow> 'b outcome) \<Rightarrow> 'b outcome" where
  "obind (Value x) f = f x"
| "obind (Raise e) f = Raise e"
| "obind Undefined f = Undefined"

fun collect :: "'a outcome list \<Rightarrow> 'a list outcome" where
  "collect [] = Value []"
| "collect (r # rs) = obind r (\<lambda>x. obind (collect rs) (\<lambda>xs. Value (x # xs)))"

section \<open>The collaborators\<close>

text \<open>
  Modelled from the spec: \<^verbatim>\<open>ThermoPhase\<close> is declared in \<^verbatim>\<open>ThermoPhase.h\<close>,
  which is not part of the sources at hand.  The record holds the phase capabilities
  that the mixture consumes: the name, the element and species names, the atom count
  of a local species \<open>k\<close> for a local element \<open>m\<close>, the current composition,
  temperature and pressure, the valid temperature range, and the molar chemical
  potentials (activity-corrected and standard-state) of the local species as the
  phase evaluates them for a temperature, a pressure and a composition.
\<close>

record phase_t =
  ph_name :: string
  ph_elementNames :: "string list"
  ph_speciesNames :: "string list"
  ph_nAtoms :: "nat \<Rightarrow> nat \<Rightarrow> doublereal"
  ph_moleFraction :: "nat \<Rightarrow> doublereal"
  ph_temperature :: doublereal
  ph_pressure :: doublereal
  ph_minTemp :: doublereal
  ph_maxTemp :: doublereal
  ph_chemPotential :: "doublereal \<Rightarrow> doublereal \<Rightarrow> (nat \<Rightarrow> doublereal) \<Rightarrow> nat \<Rightarrow> doublereal"
  ph_standardChemPotential :: "doublereal \<Rightarrow> doublereal \<Rightarrow> nat \<Rightarrow> doublereal"

definition phase_nSpecies :: "phase_t \<Rightarrow> nat" where
  "phase_nSpecies ph = length (ph_speciesNames ph)"

text \<open>
  Modelled from the spec: \<^verbatim>\<open>DenseMatrix\<close> is declared in \<^verbatim>\<open>DenseMatrix.h\<close>,
  not at hand.  The spec asks of it construction with (rows, cols) and element access by
  (row, col); the matrix is the list of its rows, and the access \<^verbatim>\<open>A(i, j)\<close> takes
  \<^verbatim>\<open>int\<close> indices and is unchecked.
\<close>

type_synonym array_t = "doublereal list list"

definition mat_at :: "array_t \<Rightarrow> int \<Rightarrow> int \<Rightarrow> doublereal outcome" where
  "mat_at A i j =
     (if 0 \<le> i \<and> 0 \<le> j \<and> nat i < length A \<and> nat j < length (A ! nat i)
      then Value (A ! nat i ! nat j) else Undefined)"

section \<open>The mixture\<close>

text \<open>
  The data members of \<^verbatim>\<open>class MultiPhase\<close>, in the order of the header.  The
  vector \<open>m_phase\<close> holds the state of the phase objects the mixture points to (the
  mixture does not own them); \<^verbatim>\<open>size_t\<close> counters are natural numbers and
  \<^verbatim>\<open>vector_int\<close> is a list of integers.
\<close>

record mixture =
  m_moles :: "doublereal list"
  m_phase :: "phase_t list"
  m_atoms :: array_t
  m_moleFractions :: "doublereal list"
  m_spphase :: "int list"
  m_spstart :: "int list"
  m_enames :: "string list"
  m_atomicNumber :: "int list"
  m_snames :: "string list"
  m_enamemap :: "string \<Rightarrow> int option"
  m_np :: nat
  m_temp :: doublereal
  m_press :: doublereal
  m_nel :: nat
  m_nsp :: nat
  m_init :: bool
  m_eloc :: int
  m_temp_OK :: "bool list"
  m_Tmin :: doublereal
  m_Tmax :: doublereal
  m_elemAbundances :: "doublereal list"

subsection \<open>Building the global indices\<close>

text \<open>A phase with more than one species is a multicomponent solution phase; the
  others are stoichiometric.\<close>

definition solutionPhase :: "phase_t \<Rightarrow> bool" where
  "solutionPhase ph = (phase_nSpecies ph > 1)"

fun add_names :: "string list \<Rightarrow> string list \<Rightarrow> string list" where
  "add_names acc [] = acc"
| "add_names acc (e # es) = add_names (if e \<in> set acc then acc else acc @ [e]) es"

fun global_elements :: "string list \<Rightarrow> phase_t list \<Rightarrow> string list" where
  "global_elements acc [] = acc"
| "global_elements acc (p # ps) = global_elements (add_names acc (ph_elementNames p)) ps"

fun index_of :: "'a \<Rightarrow> 'a list \<Rightarrow> nat option" where
  "index_of x [] = None"
| "index_of x (y # ys) = (if x = y then Some 0 else map_option Suc (index_of x ys))"

definition phase_atoms :: "string \<Rightarrow> phase_t \<Rightarrow> doublereal list" where
  "phase_atoms e ph =
     (case index_of e (ph_elementNames ph) of
        None \<Rightarrow> replicate (phase_nSpecies ph) 0
      | Some ml \<Rightarrow> map (\<lambda>k. ph_nAtoms ph k ml) [0..<phase_nSpecies ph])"

definition atom_matrix :: "string list \<Rightarrow> phase_t list \<Rightarrow> array_t" where
  "atom_matrix enames phases = map (\<lambda>e. concat (map (phase_atoms e) phases)) enames"

fun spstart_from :: "nat \<Rightarrow> phase_t list \<Rightarrow> int list" where
  "spstart_from loc [] = []"
| "spstart_from loc (p # ps) = int loc # spstart_from (loc + phase_nSpecies p) ps"

fun spphase_from :: "nat \<Rightarrow> phase_t list \<Rightarrow> int list" where
  "spphase_from ip [] = []"
| "spphase_from ip (p # ps) = replicate (phase_nSpecies p) (int ip) @ spphase_from (Suc ip) ps"

definition total_species :: "phase_t list \<Rightarrow> nat" where
  "total_species phases = sum_list (map phase_nSpecies phases)"

definition solution_Tmin :: "doublereal \<Rightarrow> phase_t list \<Rightarrow> doublereal" where
  "solution_Tmin d phases =
     (case map ph_minTemp (filter solutionPhase phases) of
        [] \<Rightarrow> d
      | t # ts \<Rightarrow> fold max ts t)"

definition solution_Tmax :: "doublereal \<Rightarrow> phase_t list \<Rightarrow> doublereal" where
  "solution_Tmax d phases =
     (case map ph_maxTemp (filter solutionPhase phases) of
        [] \<Rightarrow> d
      | t # ts \<Rightarrow> fold min ts t)"

text \<open>
  Modelled from the spec: \<^verbatim>\<open>init()\<close> is declared in the header and defined
  elsewhere.  It is the idempotent-once finalizer: the global element set is the union of
  the phases' elements by name, indexed in the order of first appearance; the atom
  matrix is filled from each phase's per-species atom counts (zero for an element the
  phase does not have); the global temperature bounds are taken over the solution
  phases only; afterwards no phase may be added.
\<close>

definition init :: "mixture \<Rightarrow> mixture" where
  "init mix =
     (if m_init mix then mix
      else
        let phases = m_phase mix;
            enames = global_elements [] phases
        in mix\<lparr> m_atoms := atom_matrix enames phases,
                m_spphase := spphase_from 0 phases,
                m_spstart := spstart_from 0 phases,
                m_enames := enames,
                m_snames := concat (map ph_speciesNames phases),
                m_enamemap := (\<lambda>e. map_option int (index_of e enames)),
                m_nel := length enames,
                m_nsp := total_species phases,
                m_init := True,
                m_Tmin := solution_Tmin (m_Tmin mix) phases,
                m_Tmax := solution_Tmax (m_Tmax mix) phases \<rparr>)"

text \<open>
  Modelled from the spec: the constructor is declared only.  The mixture is
  constructed empty; the spec gives no initial value for the scalar members, which are
  zero here.
\<close>

definition MultiPhase :: mixture where
  "MultiPhase =
     \<lparr> m_moles = [], m_phase = [], m_atoms = [], m_moleFractions = [], m_spphase = [],
       m_spstart = [], m_enames = [], m_atomicNumber = [], m_snames = [],
       m_enamemap = (\<lambda>e. None), m_np = 0, m_temp = 0, m_press = 0, m_nel = 0, m_nsp = 0,
       m_init = False, m_eloc = 0, m_temp_OK = [], m_Tmin = 0, m_Tmax = 0,
       m_elemAbundances = [] \<rparr>"

text \<open>
  Modelled from the spec: \<^verbatim>\<open>addPhase(p, moles)\<close> is declared only.  It fails with
  \<open>InvalidStateError\<close> once \<open>init\<close> has run; otherwise it appends the phase, records
  its moles and snapshots the phase's current mole fractions.
\<close>

definition addPhase :: "phase_t \<Rightarrow> doublereal \<Rightarrow> mixture \<Rightarrow> unit outcome \<times> mixture" where
  "addPhase p moles mix =
     (if m_init mix then (Raise InvalidStateError, mix)
      else (Value (),
            mix\<lparr> m_phase := m_phase mix @ [p],
                 m_moles := m_moles mix @ [moles],
                 m_moleFractions :=
                   m_moleFractions mix @ map (ph_moleFraction p) [0..<phase_nSpecies p],
                 m_np := m_np mix + 1 \<rparr>))"

text \<open>
  Modelled from the spec: the bulk variants are declared only; they have the contract of
  repeated single adds, in the order of the phases.  The moles of phase \<open>n\<close> are read
  from the vector without a check.
\<close>

fun addPhases :: "phase_t list \<Rightarrow> doublereal list \<Rightarrow> mixture \<Rightarrow> unit outcome \<times> mixture" where
  "addPhases [] molesList mix = (Value (), mix)"
| "addPhases (p # ps) [] mix = (Undefined, mix)"
| "addPhases (p # ps) (x # xs) mix =
     (case addPhase p x mix of
        (Value u, mix') \<Rightarrow> addPhases ps xs mix'
      | (r, mix') \<Rightarrow> (r, mix'))"


subsection \<open>The inline methods of the header\<close>

definition nElements :: "mixture \<Rightarrow> int" where
  "nElements mix = int (m_nel mix)"

definition nSpecies :: "mixture \<Rightarrow> int" where
  "nSpecies mix = int (m_nsp mix)"

definition nAtoms :: "int \<Rightarrow> int \<Rightarrow> mixture \<Rightarrow> doublereal outcome \<times> mixture" where
  "nAtoms kGlob mGlob mix =
     (let mix' = (if \<not> m_init mix then init mix else mix)
      in (mat_at (m_atoms mix') mGlob kGlob, mix'))"

definition getMoleFractions :: "mixture \<Rightarrow> doublereal list" where
  "getMoleFractions mix = m_moleFractions mix"


definition setPhaseMoles :: "nat \<Rightarrow> doublereal \<Rightarrow> mixture \<Rightarrow> unit outcome \<times> mixture" where
  "setPhaseMoles n moles mix =
     (if n < length (m_moles mix)
      then (Value (), mix\<lparr> m_moles := (m_moles mix)[n := moles] \<rparr>)
      else (Undefined, mix))"

definition speciesIndex :: "mixture \<Rightarrow> nat \<Rightarrow> nat \<Rightarrow> int outcome" where
  "speciesIndex mix k p =
     (case vec_at (m_spstart mix) p of Value s \<Rightarrow> Value (s + int k) | r \<Rightarrow> r)"

definition minTemp :: "mixture \<Rightarrow> doublereal" where
  "minTemp mix = m_Tmin mix"

definition maxTemp :: "mixture \<Rightarrow> doublereal" where
  "maxTemp mix = m_Tmax mix"


definition pressure :: "mixture \<Rightarrow> doublereal" where
  "pressure mix = m_press mix"




subsection \<open>Synchronizing the phases\<close>

text \<open>
  Modelled from the spec: \<^verbatim>\<open>updatePhases()\<close> is declared only, and so is the
  \<^verbatim>\<open>setState_TPX\<close> of a phase.  It sets the state of every phase object to the
  locally stored state: the temperature, the pressure and the phase's slice of the mole
  fractions.  It is a \<^verbatim>\<open>const\<close> method and \<open>m_temp_OK\<close> is \<^verbatim>\<open>mutable\<close>:
  the flags are the cache it refreshes, one per phase.  The header documents the flag
  where it declares \<open>m_temp_OK\<close>: if the current temperature is outside the range of
  valid temperatures for the phase thermodynamics, the phase flag is set to false.
\<close>

definition thermoValid :: "doublereal \<Rightarrow> phase_t \<Rightarrow> bool" where
  "thermoValid T ph \<longleftrightarrow> \<not> (T < ph_minTemp ph \<or> T > ph_maxTemp ph)"

definition setState_TPX :: "doublereal \<Rightarrow> doublereal \<Rightarrow> (nat \<Rightarrow> doublereal) \<Rightarrow> phase_t \<Rightarrow> phase_t" where
  "setState_TPX T P x ph = ph\<lparr> ph_temperature := T, ph_pressure := P, ph_moleFraction := x \<rparr>"

fun updatePhases_loop ::
  "phase_t list \<Rightarrow> doublereal \<Rightarrow> doublereal \<Rightarrow> doublereal list \<Rightarrow> nat \<Rightarrow> phase_t list \<times> bool list" where
  "updatePhases_loop [] T P x loc = ([], [])"
| "updatePhases_loop (p # ps) T P x loc =
     (let nsp = phase_nSpecies p;
          p' = setState_TPX T P (\<lambda>k. x ! (loc + k)) p;
          ok = thermoValid T p';
          (ps', oks) = updatePhases_loop ps T P x (loc + nsp)
      in (p' # ps', ok # oks))"

definition updatePhases :: "mixture \<Rightarrow> unit outcome \<times> mixture" where
  "updatePhases mix =
     (if length (m_moleFractions mix) < total_species (m_phase mix) then (Undefined, mix)
      else let (ps', oks) = updatePhases_loop (m_phase mix) (m_temp mix) (m_press mix)
                              (m_moleFractions mix) 0
           in (Value (), mix\<lparr> m_phase := ps', m_temp_OK := oks \<rparr>))"


definition setPressure :: "doublereal \<Rightarrow> mixture \<Rightarrow> unit outcome \<times> mixture" where
  "setPressure P mix = updatePhases (mix\<lparr> m_press := P \<rparr>)"

text \<open>
  Modelled from the spec: \<^verbatim>\<open>getValidChemPotentials(not_mu, mu, standard)\<close> is
  declared only.  For each phase it writes the chemical potentials of the phase's species
  (standard ones when \<open>standard\<close> is set), and \<open>not_mu\<close> for the species of a phase
  whose thermo data are not valid at the current temperature, that is, whose
  \<^verbatim>\<open>tempOK\<close> is false.
\<close>

definition phaseChemPotentials :: "bool \<Rightarrow> phase_t \<Rightarrow> doublereal list" where
  "phaseChemPotentials standard ph =
     map (\<lambda>k. if standard
               then ph_standardChemPotential ph (ph_temperature ph) (ph_pressure ph) k
               else ph_chemPotential ph (ph_temperature ph) (ph_pressure ph) (ph_moleFraction ph) k)
         [0..<phase_nSpecies ph]"


subsection \<open>Mole accounting\<close>

text \<open>
  Modelled from the spec: \<^verbatim>\<open>speciesMoles\<close>, \<^verbatim>\<open>getMoles\<close> and
  \<^verbatim>\<open>setMoles\<close> are declared only.  The class has no member for the moles of a
  species: it stores the moles of each phase (\<open>m_moles\<close>) and the mole fractions of
  each species (\<open>m_moleFractions\<close>), and the moles of a species are the linear
  function of the two that the data model names: its mole fraction times the moles of
  its phase.  \<^verbatim>\<open>getMoles\<close> writes them for every global species.  \<^verbatim>\<open>setMoles\<close>
  recomputes, phase by phase, the phase total and the mole fractions: a fraction is the
  species' moles over the phase total, and zero when the phase total is zero.  The
  loop reads \<^verbatim>\<open>n[loc + ik]\<close> for the species \<open>ik\<close> of the phase that starts at
  \<open>loc\<close>; a vector shorter than the species count is read beyond its end.
\<close>

definition speciesMoles :: "mixture \<Rightarrow> nat \<Rightarrow> doublereal outcome" where
  "speciesMoles mix kGlob =
     obind (vec_at (m_spphase mix) kGlob) (\<lambda>ip.
     obind (vec_at (m_moleFractions mix) kGlob) (\<lambda>x.
     obind (vec_at_int (m_moles mix) ip) (\<lambda>moles. Value (x * moles))))"


fun setMoles_loop :: "phase_t list \<Rightarrow> doublereal list \<Rightarrow> nat \<Rightarrow> doublereal list \<times> doublereal list" where
  "setMoles_loop [] n loc = ([], [])"
| "setMoles_loop (p # ps) n loc =
     (let nsp = phase_nSpecies p;
          phasemoles = sum_list (map (\<lambda>ik. n ! (loc + ik)) [0..<nsp]);
          x = map (\<lambda>ik. if phasemoles = 0 then 0 else n ! (loc + ik) / phasemoles) [0..<nsp];
          (ms, xs) = setMoles_loop ps n (loc + nsp)
      in (phasemoles # ms, x @ xs))"

definition setMoles :: "doublereal list \<Rightarrow> mixture \<Rightarrow> unit outcome \<times> mixture" where
  "setMoles n mix =
     (if length n < total_species (m_phase mix) then (Undefined, mix)
      else let (ms, xs) = setMoles_loop (m_phase mix) n 0
           in (Value (), mix\<lparr> m_moles := ms, m_moleFractions := xs \<rparr>))"

text \<open>
  Modelled from the spec: \<^verbatim>\<open>elementMoles(m)\<close> is declared only.  The header
  documents it as the total moles of element \<open>m\<close>, summed over all phases, the spec as
  the sum over the atom matrix row weighted by species moles.  The model sums phase by
  phase: for each species \<open>ik\<close> of phase \<open>ip\<close>, addressed by
  \<^verbatim>\<open>speciesIndex(ik, ip)\<close>, the atom count times the moles of the species.
\<close>

definition elementMoles :: "mixture \<Rightarrow> nat \<Rightarrow> doublereal outcome" where
  "elementMoles mix m =
     obind (collect (map (\<lambda>ip.
        obind (vec_at (m_phase mix) ip) (\<lambda>ph.
        obind (collect (map (\<lambda>ik.
           obind (speciesIndex mix ik ip) (\<lambda>k.
           obind (mat_at (m_atoms mix) (int m) k) (\<lambda>a.
           obind (if 0 \<le> k then speciesMoles mix (nat k) else Undefined) (\<lambda>moles.
           Value (a * moles))))) [0..<phase_nSpecies ph])) (\<lambda>ts.
        Value (sum_list ts)))) [0..<m_np mix])) (\<lambda>phasesums.
     Value (sum_list phasesums))"




subsection \<open>The equilibrium solver\<close>

text \<open>
  Modelled from the spec: \<^verbatim>\<open>equilibrate(XY, err, maxsteps, maxiter, loglevel)\<close> is
  declared only, and the spec gives its contract and leaves its numerics open.  The
  numerics are therefore parameters: one step of the fixed-(T,P) iteration, the
  chemical-potential residual of a state, the relative mismatch of the property held
  fixed, and the update of the free variable by the outer loop.  The code of the flag
  \<open>XY\<close> for fixed temperature and pressure, a constant of \<^verbatim>\<open>ct_defs.h\<close>, is the
  parameter \<open>TP\<close>.

  The inner loop takes at most \<open>maxsteps\<close> steps and stops as soon as the residual is
  below \<open>err\<close> in magnitude; the outer loop, used when something other than (T,P) is
  held fixed, runs the inner solve at most \<open>maxiter\<close> times and stops as soon as the
  mismatch is below \<open>err\<close>.  A loop that exhausts its budget raises
  \<open>ConvergenceError\<close> with the last error it achieved.  The level of diagnostics does
  not affect the result.
\<close>

record solver =
  sv_step :: "mixture \<Rightarrow> mixture"
  sv_residual :: "mixture \<Rightarrow> doublereal"
  sv_mismatch :: "int \<Rightarrow> mixture \<Rightarrow> doublereal"
  sv_adjust :: "int \<Rightarrow> mixture \<Rightarrow> mixture"

fun solveTP :: "solver \<Rightarrow> doublereal \<Rightarrow> nat \<Rightarrow> mixture \<Rightarrow> doublereal outcome \<times> mixture" where
  "solveTP sv err 0 mix = (Raise (ConvergenceError (sv_residual sv mix)), mix)"
| "solveTP sv err (Suc steps) mix =
     (let mix' = sv_step sv mix
      in if \<bar>sv_residual sv mix'\<bar> < err then (Value (sv_residual sv mix'), mix')
         else solveTP sv err steps mix')"

fun solveOuter ::
  "solver \<Rightarrow> int \<Rightarrow> doublereal \<Rightarrow> nat \<Rightarrow> nat \<Rightarrow> mixture \<Rightarrow> doublereal outcome \<times> mixture" where
  "solveOuter sv XY err maxsteps 0 mix = (Raise (ConvergenceError (sv_mismatch sv XY mix)), mix)"
| "solveOuter sv XY err maxsteps (Suc iters) mix =
     (case solveTP sv err maxsteps mix of
        (Value e, mix') \<Rightarrow>
          if \<bar>sv_mismatch sv XY mix'\<bar> < err then (Value (sv_mismatch sv XY mix'), mix')
          else if iters = 0 then (Raise (ConvergenceError (sv_mismatch sv XY mix')), mix')
          else solveOuter sv XY err maxsteps iters (sv_adjust sv XY mix')
      | (r, mix') \<Rightarrow> (r, mix'))"

definition equilibrate ::
  "solver \<Rightarrow> int \<Rightarrow> int \<Rightarrow> doublereal \<Rightarrow> int \<Rightarrow> int \<Rightarrow> int \<Rightarrow> mixture \<Rightarrow> doublereal outcome \<times> mixture" where
  "equilibrate sv TP XY err maxsteps maxiter loglevel mix =
     (if XY = TP then solveTP sv err (nat maxsteps) mix
      else solveOuter sv XY err (nat maxsteps) (nat maxiter) mix)"

section \<open>Initialized mixtures\<close>

text \<open>
  A mixture under construction keeps one mole amount per phase and one mole fraction per
  species of its phases.  It is initialized when \<open>init\<close> has run and the global
  indices, names and atom matrix are the ones \<open>init\<close> builds from the phases.
\<close>

definition constructed :: "mixture \<Rightarrow> bool" where
  "constructed mix \<longleftrightarrow>
     m_np mix = length (m_phase mix) \<and> length (m_moles mix) = length (m_phase mix)
     \<and> length (m_moleFractions mix) = total_species (m_phase mix)"

definition indexed :: "mixture \<Rightarrow> bool" where
  "indexed mix \<longleftrightarrow>
     m_nsp mix = total_species (m_phase mix)
     \<and> m_spstart mix = spstart_from 0 (m_phase mix)
     \<and> m_spphase mix = spphase_from 0 (m_phase mix)
     \<and> m_enames mix = global_elements [] (m_phase mix)
     \<and> m_nel mix = length (m_enames mix)
     \<and> m_atoms mix = atom_matrix (m_enames mix) (m_phase mix)
     \<and> m_snames mix = concat (map ph_speciesNames (m_phase mix))"

definition initialized :: "mixture \<Rightarrow> bool" where
  "initialized mix \<longleftrightarrow> m_init mix \<and> constructed mix \<and> indexed mix"

text \<open>The total of the entries of a mole vector that belong to phase \<open>p\<close>.\<close>

definition phaseTotal :: "mixture \<Rightarrow> doublereal list \<Rightarrow> nat \<Rightarrow> doublereal" where
  "phaseTotal mix n p =
     sum_list (map (\<lambda>ik. n ! (nat (m_spstart mix ! p) + ik)) [0..<phase_nSpecies (m_phase mix ! p)])"

section \<open>A small mixture\<close>

text \<open>A gas of hydrogen, oxygen and water over solid carbon, used to run the model.\<close>

definition ex_gas :: phase_t where
  "ex_gas =
     \<lparr> ph_name = ''gas'', ph_elementNames = [''H'', ''O''],
       ph_speciesNames = [''H2'', ''O2'', ''H2O''],
       ph_nAtoms = (\<lambda>k m. [[2, 0], [0, 2], [2, 1]] ! k ! m),
       ph_moleFraction = (\<lambda>k. [1/2, 1/4, 1/4] ! k),
       ph_temperature = 300, ph_pressure = 101325, ph_minTemp = 300, ph_maxTemp = 1000,
       ph_chemPotential = (\<lambda>T P x k. 0), ph_standardChemPotential = (\<lambda>T P k. 0) \<rparr>"

definition ex_solid :: phase_t where
  "ex_solid =
     \<lparr> ph_name = ''graphite'', ph_elementNames = [''C''], ph_speciesNames = [''C(s)''],
       ph_nAtoms = (\<lambda>k m. 1), ph_moleFraction = (\<lambda>k. 1),
       ph_temperature = 300, ph_pressure = 101325, ph_minTemp = 300, ph_maxTemp = 1000,
       ph_chemPotential = (\<lambda>T P x k. 0), ph_standardChemPotential = (\<lambda>T P k. 0) \<rparr>"

definition ex_pre :: mixture where
  "ex_pre = snd (addPhases [ex_gas, ex_solid] [1, 2] MultiPhase)"

definition ex_mix :: mixture where
  "ex_mix = init ex_pre"

lemma ex_pre_eq:
  "ex_pre = MultiPhase\<lparr> m_phase := [ex_gas, ex_solid], m_moles := [1, 2],
              m_moleFractions := [1/2, 1/4, 1/4, 1], m_np := 2 \<rparr>"
  by (simp add: ex_pre_def addPhase_def MultiPhase_def phase_nSpecies_def ex_gas_def
        ex_solid_def upt_rec [of 0] upt_rec [of 1] upt_rec [of 2])

lemma ex_mix_eq:
  "ex_mix = ex_pre\<lparr> m_atoms := [[2, 0, 2, 0], [0, 2, 1, 0], [0, 0, 0, 1]],
              m_spphase := [0, 0, 0, 1], m_spstart := [0, 3],
              m_enames := [''H'', ''O'', ''C''],
              m_snames := [''H2'', ''O2'', ''H2O'', ''C(s)''],
              m_enamemap := (\<lambda>e. map_option int (index_of e [''H'', ''O'', ''C''])),
              m_nel := 3, m_nsp := 4, m_init := True, m_Tmin := 300, m_Tmax := 1000 \<rparr>"
  by (simp add: ex_mix_def init_def ex_pre_eq MultiPhase_def atom_matrix_def phase_atoms_def
        total_species_def phase_nSpecies_def solution_Tmin_def solution_Tmax_def
        solutionPhase_def ex_gas_def ex_solid_def upt_rec [of 0] upt_rec [of 1] upt_rec [of 2])

section \<open>The shape of the indices\<close>

lemma length_phase_atoms: "length (phase_atoms e ph) = phase_nSpecies ph"
  by (simp add: phase_atoms_def split: option.split)

lemma length_atom_row: "length (concat (map (phase_atoms e) phases)) = total_species phases"
  by (induction phases) (simp_all add: total_species_def length_phase_atoms)

lemma init_atoms_shape:
  assumes "\<not> m_init mix"
  shows "length (m_atoms (init mix)) = m_nel (init mix)"
    and "m < m_nel (init mix) \<Longrightarrow> length (m_atoms (init mix) ! m) = m_nsp (init mix)"
  using assms by (simp_all add: init_def Let_def atom_matrix_def length_atom_row)

lemma init_sets_m_init: "m_init (init mix)"
  by (simp add: init_def Let_def)

lemma total_species_simps [simp]:
  "total_species [] = 0"
  "total_species (p # ps) = phase_nSpecies p + total_species ps"
  "total_species (ps @ qs) = total_species ps + total_species qs"
  by (simp_all add: total_species_def)

lemma length_spstart_from [simp]: "length (spstart_from loc ps) = length ps"
  by (induction ps arbitrary: loc) simp_all

lemma length_spphase_from [simp]: "length (spphase_from ip ps) = total_species ps"
  by (induction ps arbitrary: ip) simp_all

lemma spstart_from_nth:
  "p < length ps \<Longrightarrow> spstart_from loc ps ! p = int (loc + total_species (take p ps))"
proof (induction ps arbitrary: loc p)
  case Nil then show ?case by simp
next
  case (Cons q ps)
  then show ?case by (cases p) (simp_all add: add.assoc)
qed

lemma spphase_from_nth:
  "p < length ps \<Longrightarrow> j < phase_nSpecies (ps ! p)
   \<Longrightarrow> spphase_from ip ps ! (total_species (take p ps) + j) = int (ip + p)"
proof (induction ps arbitrary: ip p)
  case Nil then show ?case by simp
next
  case (Cons q ps)
  show ?case
  proof (cases p)
    case 0
    with Cons.prems show ?thesis by (simp add: nth_append)
  next
    case (Suc p')
    with Cons.prems have "spphase_from (Suc ip) ps ! (total_species (take p' ps) + j) = int (Suc ip + p')"
      by (intro Cons.IH) simp_all
    with Suc show ?thesis by (simp add: nth_append add.assoc)
  qed
qed

text \<open>Every global species index is a local index of exactly one phase.\<close>

lemma species_decompose:
  "k < total_species ps \<Longrightarrow>
   \<exists>p j. p < length ps \<and> j < phase_nSpecies (ps ! p) \<and> k = total_species (take p ps) + j"
proof (induction ps arbitrary: k)
  case Nil then show ?case by simp
next
  case (Cons q ps)
  show ?case
  proof (cases "k < phase_nSpecies q")
    case True
    then have "0 < length (q # ps) \<and> k < phase_nSpecies ((q # ps) ! 0) \<and> k = total_species (take 0 (q # ps)) + k"
      by simp
    then show ?thesis by blast
  next
    case False
    with Cons.prems have "k - phase_nSpecies q < total_species ps" by simp
    from Cons.IH [OF this] obtain p j where
      pj: "p < length ps" "j < phase_nSpecies (ps ! p)" "k - phase_nSpecies q = total_species (take p ps) + j"
      by blast
    with False have "Suc p < length (q # ps) \<and> j < phase_nSpecies ((q # ps) ! Suc p)
        \<and> k = total_species (take (Suc p) (q # ps)) + j"
      by simp
    then show ?thesis by blast
  qed
qed

lemma total_take_le: "p < length ps \<Longrightarrow> total_species (take p ps) + phase_nSpecies (ps ! p) \<le> total_species ps"
proof -
  assume "p < length ps"
  then have "ps = take p ps @ (ps ! p) # drop (Suc p) ps"
    by (simp add: id_take_nth_drop)
  then have "total_species ps = total_species (take p ps) + (phase_nSpecies (ps ! p) + total_species (drop (Suc p) ps))"
    by (metis total_species_simps(2) total_species_simps(3))
  then show ?thesis by simp
qed

section \<open>The loop of setMoles\<close>

lemma length_setMoles_loop:
  "length (fst (setMoles_loop ps n loc)) = length ps"
  "length (snd (setMoles_loop ps n loc)) = total_species ps"
  by (induction ps arbitrary: loc) (simp_all add: Let_def split_beta)




lemma collect_Values: "collect (map (\<lambda>k. Value (f k)) ks) = Value (map f ks)"
  by (induction ks) simp_all

lemma collect_map_Value:
  assumes "\<And>k. k \<in> set ks \<Longrightarrow> g k = Value (f k)"
  shows "collect (map g ks) = Value (map f ks)"
proof -
  have "map g ks = map (\<lambda>k. Value (f k)) ks"
    by (rule map_cong [OF refl]) (simp add: assms)
  then show ?thesis by (simp only: collect_Values)
qed

text \<open>What the indices of an initialized mixture say about a global species.\<close>

lemma initialized_species:
  assumes "initialized mix" "k < m_nsp mix"
  obtains p j where "p < length (m_phase mix)" "j < phase_nSpecies (m_phase mix ! p)"
    "k = total_species (take p (m_phase mix)) + j"
    "m_spphase mix ! k = int p" "m_spstart mix ! p = int (total_species (take p (m_phase mix)))"
proof -
  from assms have k: "k < total_species (m_phase mix)"
    and sp: "m_spphase mix = spphase_from 0 (m_phase mix)"
    and st: "m_spstart mix = spstart_from 0 (m_phase mix)"
    by (simp_all add: initialized_def indexed_def)
  from species_decompose [OF k] obtain p j where
    pj: "p < length (m_phase mix)" "j < phase_nSpecies (m_phase mix ! p)"
      "k = total_species (take p (m_phase mix)) + j"
    by blast
  have "m_spphase mix ! k = int p"
    using spphase_from_nth [OF pj(1,2), of 0] pj(3) sp by simp
  moreover have "m_spstart mix ! p = int (total_species (take p (m_phase mix)))"
    using spstart_from_nth [OF pj(1), of 0] st by simp
  ultimately show thesis using pj that by blast
qed






section \<open>Sums over the species, phase by phase\<close>

lemma upt_split_offset:
  "[0..<a + b] = [0..<a] @ map (\<lambda>j. a + j) [0..<b]"
proof -
  have "[0..<a + b] = [0..<a] @ [a..<a + b]"
    using upt_add_eq_append [of 0 a b] by simp
  moreover have "map (\<lambda>j. a + j) [0..<b] = [a..<a + b]"
    using map_add_upt [of a b] by (simp add: add.commute)
  ultimately show ?thesis by simp
qed

lemma sum_by_phase:
  "sum_list (map f [0..<total_species ps])
     = sum_list (map (\<lambda>p. sum_list (map (\<lambda>j. f (total_species (take p ps) + j))
                                         [0..<phase_nSpecies (ps ! p)])) [0..<length ps])"
proof (induction ps rule: rev_induct)
  case Nil
  then show ?case by simp
next
  case (snoc q ps)
  define G1 where "G1 = (\<lambda>p. sum_list (map (\<lambda>j. f (total_species (take p (ps @ [q])) + j))
                                      [0..<phase_nSpecies ((ps @ [q]) ! p)]))"
  define G2 where "G2 = (\<lambda>p. sum_list (map (\<lambda>j. f (total_species (take p ps) + j))
                                      [0..<phase_nSpecies (ps ! p)]))"
  define S where "S = sum_list (map (\<lambda>j. f (total_species ps + j)) [0..<phase_nSpecies q])"
  have flat: "sum_list (map f [0..<total_species (ps @ [q])])
                = sum_list (map f [0..<total_species ps]) + S"
    unfolding S_def
    by (simp add: upt_split_offset [of "total_species ps" "phase_nSpecies q"] o_def)
  have inner: "map G1 [0..<length ps] = map G2 [0..<length ps]"
    unfolding G1_def G2_def by (rule map_cong [OF refl]) (simp add: nth_append)
  have last: "G1 (length ps) = S"
    unfolding G1_def S_def by simp
  have "sum_list (map G1 [0..<length (ps @ [q])]) = sum_list (map G1 [0..<length ps]) + G1 (length ps)"
    by simp
  then have nested: "sum_list (map G1 [0..<length (ps @ [q])]) = sum_list (map G2 [0..<length ps]) + S"
    by (simp only: inner last)
  have "sum_list (map f [0..<total_species (ps @ [q])]) = sum_list (map G1 [0..<length (ps @ [q])])"
    using snoc.IH unfolding flat nested G2_def by simp
  then show ?case
    unfolding G1_def .
qed


lemma initialized_speciesMoles:
  assumes "initialized mix" and k: "k < m_nsp mix"
  shows "speciesMoles mix k
           = Value (m_moleFractions mix ! k * m_moles mix ! nat (m_spphase mix ! k))"
proof -
  from assms(1) have len: "length (m_spphase mix) = m_nsp mix"
      "length (m_moleFractions mix) = m_nsp mix" "length (m_moles mix) = length (m_phase mix)"
    by (simp_all add: initialized_def indexed_def constructed_def)
  from initialized_species [OF assms] obtain p where
    "p < length (m_phase mix)" "m_spphase mix ! k = int p"
    by blast
  with k len show ?thesis
    by (simp add: speciesMoles_def vec_at_def vec_at_int_def)
qed

lemma initialized_mat_at:
  assumes "initialized mix" and "m < m_nel mix" and "k < m_nsp mix"
  shows "mat_at (m_atoms mix) (int m) (int k) = Value (m_atoms mix ! m ! k)"
  using assms
  by (simp add: initialized_def indexed_def mat_at_def atom_matrix_def length_atom_row)

section \<open>Phases that differ in their thermodynamic state only\<close>














section \<open>Invariants of construction and initialization\<close>

lemma constructed_MultiPhase: "constructed MultiPhase"
  by (simp add: constructed_def MultiPhase_def)

lemma constructed_addPhase:
  assumes "constructed mix"
  shows "constructed (snd (addPhase p x mix))"
  using assms by (simp add: constructed_def addPhase_def)

lemma constructed_addPhases:
  assumes "constructed mix"
  shows "constructed (snd (addPhases ps xs mix))"
  using assms
proof (induction ps xs mix rule: addPhases.induct)
  case (3 p ps x xs mix)
  show ?case
  proof (cases "m_init mix")
    case True
    with "3.prems" show ?thesis by (simp add: addPhase_def)
  next
    case False
    define mix' where "mix' = snd (addPhase p x mix)"
    from False have step: "addPhase p x mix = (Value (), mix')"
      by (simp add: mix'_def addPhase_def)
    have "constructed mix'"
      unfolding mix'_def by (rule constructed_addPhase [OF "3.prems"])
    then have "constructed (snd (addPhases ps xs mix'))"
      using "3.IH" [OF step [symmetric] refl] by simp
    with step show ?thesis by simp
  qed
qed simp_all

lemma initialized_init:
  assumes "constructed mix" and "\<not> m_init mix"
  shows "initialized (init mix)"
  using assms by (simp add: initialized_def constructed_def indexed_def init_def Let_def)

lemma initialized_setMoles:
  assumes "initialized mix"
  shows "initialized (snd (setMoles n mix))"
  using assms
  by (simp add: initialized_def constructed_def indexed_def setMoles_def split_beta
        length_setMoles_loop)

lemma initialized_setPhaseMoles:
  assumes "initialized mix"
  shows "initialized (snd (setPhaseMoles p x mix))"
  using assms
  by (simp add: initialized_def constructed_def indexed_def setPhaseMoles_def)

lemma ex_mix_initialized: "initialized ex_mix"
proof -
  have "constructed ex_pre"
    unfolding ex_pre_def by (intro constructed_addPhases constructed_MultiPhase)
  moreover have "\<not> m_init ex_pre"
    by (simp add: ex_pre_eq MultiPhase_def)
  ultimately show ?thesis
    unfolding ex_mix_def by (rule initialized_init)
qed

lemma ex_nSpecies [simp]: "phase_nSpecies ex_gas = 3" "phase_nSpecies ex_solid = 1"
  by (simp_all add: phase_nSpecies_def ex_gas_def ex_solid_def)

lemma upt_3: "[0..<3] = [0, 1, 2]" "[0..<4] = [0, 1, 2, 3]"
  by (simp_all add: upt_conv_Cons)



lemma ex_nAtoms_H:
  "fst (nAtoms 0 0 ex_mix) = Value 2" "fst (nAtoms 1 0 ex_mix) = Value 0"
  "fst (nAtoms 2 0 ex_mix) = Value 2" "fst (nAtoms 3 0 ex_mix) = Value 0"
  by (simp_all add: nAtoms_def mat_at_def ex_mix_eq)

lemma ex_speciesMoles:
  "speciesMoles ex_mix 0 = Value (1 / 2)" "speciesMoles ex_mix (Suc 0) = Value (1 / 4)"
  "speciesMoles ex_mix 2 = Value (1 / 4)" "speciesMoles ex_mix 3 = Value 2"
  by (simp_all add: speciesMoles_def vec_at_def vec_at_int_def ex_mix_eq ex_pre_eq MultiPhase_def)

lemma ex_phaseTotal:
  "phaseTotal ex_mix [a, b, c, d] 0 = a + b + c" "phaseTotal ex_mix [a, b, c, d] (Suc 0) = d"
  by (simp_all add: phaseTotal_def ex_mix_eq ex_pre_eq MultiPhase_def upt_3)


lemma ex_spphase:
  "m_spphase ex_mix ! 0 = 0" "m_spphase ex_mix ! Suc 0 = 0" "m_spphase ex_mix ! 2 = 0"
  "m_spphase ex_mix ! 3 = 1"
  by (simp_all add: ex_mix_eq)



lemma length_phaseChemPotentials [simp]:
  "length (phaseChemPotentials standard ph) = phase_nSpecies ph"
  by (simp add: phaseChemPotentials_def)






section \<open>The loops of the solver\<close>

text \<open>What a call left behind: a converged state with its error, or a
  \<open>ConvergenceError\<close> with the error of the state it stopped in.\<close>

definition signalled :: "solver \<Rightarrow> bool \<Rightarrow> int \<Rightarrow> doublereal \<Rightarrow> doublereal outcome \<times> mixture \<Rightarrow> bool" where
  "signalled sv direct XY err r =
     (case r of
        (Value e, mix') \<Rightarrow>
          \<bar>sv_residual sv mix'\<bar> < err
          \<and> (if direct then e = sv_residual sv mix'
              else \<bar>sv_mismatch sv XY mix'\<bar> < err \<and> e = sv_mismatch sv XY mix')
      | (Raise x, mix') \<Rightarrow>
          x = ConvergenceError (sv_residual sv mix')
          \<or> (\<not> direct \<and> x = ConvergenceError (sv_mismatch sv XY mix'))
      | (Undefined, mix') \<Rightarrow> False)"

lemma solveTP_signalled:
  "case solveTP sv err steps mix of
     (Value e, mix') \<Rightarrow> \<bar>sv_residual sv mix'\<bar> < err \<and> e = sv_residual sv mix'
   | (Raise x, mix') \<Rightarrow> x = ConvergenceError (sv_residual sv mix')
   | (Undefined, mix') \<Rightarrow> False"
  by (induction steps arbitrary: mix) (simp_all add: Let_def)

lemma solveTP_exhausted:
  assumes "\<forall>i. 1 \<le> i \<and> i \<le> steps \<longrightarrow> \<not> \<bar>sv_residual sv ((sv_step sv ^^ i) mix)\<bar> < err"
  shows "solveTP sv err steps mix
           = (Raise (ConvergenceError (sv_residual sv ((sv_step sv ^^ steps) mix))),
              (sv_step sv ^^ steps) mix)"
  using assms
proof (induction steps arbitrary: mix)
  case 0
  then show ?case by simp
next
  case (Suc steps)
  have first: "\<not> \<bar>sv_residual sv (sv_step sv mix)\<bar> < err"
    using Suc.prems [rule_format, of 1] by simp
  have rest: "\<forall>i. 1 \<le> i \<and> i \<le> steps
                 \<longrightarrow> \<not> \<bar>sv_residual sv ((sv_step sv ^^ i) (sv_step sv mix))\<bar> < err"
  proof (intro allI impI)
    fix i assume "1 \<le> i \<and> i \<le> steps"
    then have "1 \<le> Suc i \<and> Suc i \<le> Suc steps" by simp
    with Suc.prems have "\<not> \<bar>sv_residual sv ((sv_step sv ^^ Suc i) mix)\<bar> < err" by blast
    then show "\<not> \<bar>sv_residual sv ((sv_step sv ^^ i) (sv_step sv mix))\<bar> < err"
      by (simp add: funpow_swap1)
  qed
  from Suc.IH [OF rest] first show ?case
    by (simp add: Let_def funpow_swap1)
qed

lemma solveOuter_signalled:
  "signalled sv False XY err (solveOuter sv XY err maxsteps iters mix)"
proof (induction iters arbitrary: mix)
  case 0
  then show ?case by (simp add: signalled_def)
next
  case (Suc iters)
  obtain r mix' where inner: "solveTP sv err maxsteps mix = (r, mix')"
    by (cases "solveTP sv err maxsteps mix")
  show ?case
  proof (cases r)
    case (Value e)
    with inner solveTP_signalled [of sv err maxsteps mix]
    have conv: "\<bar>sv_residual sv mix'\<bar> < err"
      by simp
    show ?thesis
    proof (cases "\<bar>sv_mismatch sv XY mix'\<bar> < err")
      case True
      with inner Value conv show ?thesis by (simp add: signalled_def)
    next
      case False
      show ?thesis
      proof (cases "iters = 0")
        case True
        with inner Value False show ?thesis by (simp add: signalled_def)
      next
        case nonzero: False
        with inner Value False Suc.IH [of "sv_adjust sv XY mix'"] show ?thesis by simp
      qed
    qed
  next
    case (Raise x)
    with inner solveTP_signalled [of sv err maxsteps mix] show ?thesis
      by (simp add: signalled_def)
  next
    case Undefined
    with inner solveTP_signalled [of sv err maxsteps mix] show ?thesis
      by simp
  qed
qed


text \<open>A solver that heats the mixture by 400 K per step until it reaches 1200 K.\<close>

definition ex_solver :: solver where
  "ex_solver =
     \<lparr> sv_step = (\<lambda>m. m\<lparr> m_temp := m_temp m + 400 \<rparr>),
       sv_residual = (\<lambda>m. 1200 - m_temp m),
       sv_mismatch = (\<lambda>XY m. 0),
       sv_adjust = (\<lambda>XY m. m) \<rparr>"

lemma ex_solver_step: "sv_step ex_solver m = m\<lparr> m_temp := m_temp m + 400 \<rparr>"
  by (simp add: ex_solver_def)

lemma ex_solver_steps:
  "(sv_step ex_solver ^^ i) m = m\<lparr> m_temp := m_temp m + 400 * real i \<rparr>"
proof (induction i)
  case 0
  show ?case by simp
next
  case (Suc i)
  have "(sv_step ex_solver ^^ Suc i) m = sv_step ex_solver ((sv_step ex_solver ^^ i) m)"
    by simp
  also have "\<dots> = m\<lparr> m_temp := m_temp m + 400 * real i + 400 \<rparr>"
    by (simp only: Suc.IH ex_solver_step) simp
  also have "m_temp m + 400 * real i + 400 = m_temp m + 400 * real (Suc i)"
    by simp
  finally show ?case .
qed

lemma ex_solver_residual: "sv_residual ex_solver m = 1200 - m_temp m"
  by (simp add: ex_solver_def)

section \<open>Setting the moles of one phase\<close>

text \<open>
  C10.  \<^verbatim>\<open>setPhaseMoles(n, moles)\<close> with \<open>n\<close> an index into the vector of phase
  moles returns normally and changes only entry \<open>n\<close> of that vector: the entry holds
  \<open>moles\<close> afterwards, every other entry, the temperature, the pressure, the
  mole-fraction vector, the atom matrix and the phase objects are as before, and so is
  every other member (the state is the old one with a new \<open>m_moles\<close>), so the phases
  are not synchronized.
\<close>

theorem setPhaseMoles_frame:
  assumes "n < length (m_moles mix)"
  shows "\<exists>mix'. setPhaseMoles n moles mix = (Value (), mix')
           \<and> m_moles mix' ! n = moles
           \<and> length (m_moles mix') = length (m_moles mix)
           \<and> (\<forall>j. j \<noteq> n \<longrightarrow> m_moles mix' ! j = m_moles mix ! j)
           \<and> m_temp mix' = m_temp mix \<and> m_press mix' = m_press mix
           \<and> m_moleFractions mix' = m_moleFractions mix
           \<and> m_atoms mix' = m_atoms mix
           \<and> m_phase mix' = m_phase mix
           \<and> mix' = mix\<lparr> m_moles := m_moles mix' \<rparr>"
  using assms by (simp add: setPhaseMoles_def)

text \<open>The moles of the gas are set to five.\<close>

theorem setPhaseMoles_frame_witness:
  "(0::nat) < length (m_moles ex_mix)
     \<and> setPhaseMoles 0 5 ex_mix = (Value (), ex_mix\<lparr> m_moles := [5, 2] \<rparr>)"
  using setPhaseMoles_frame [of 0 ex_mix 5]
  by (simp add: ex_mix_eq ex_pre_eq MultiPhase_def setPhaseMoles_def)

section \<open>Atom counts before initialization\<close>

text \<open>
  C9.  On a mixture on which \<open>init\<close> has not run, \<^verbatim>\<open>nAtoms(kGlob, mGlob)\<close> raises
  no error: it runs \<open>init\<close> and reads entry \<open>(mGlob, kGlob)\<close> of the atom matrix that
  \<open>init\<close> built, which is a value when \<open>kGlob\<close> is a global species index and
  \<open>mGlob\<close> a global element index, and it leaves the mixture initialized.
\<close>

theorem nAtoms_runs_init:
  assumes "\<not> m_init mix"
  shows "nAtoms kGlob mGlob mix = (mat_at (m_atoms (init mix)) mGlob kGlob, init mix)
       \<and> (\<forall>e. fst (nAtoms kGlob mGlob mix) \<noteq> Raise e)
       \<and> m_init (snd (nAtoms kGlob mGlob mix))
       \<and> (0 \<le> kGlob \<and> kGlob < nSpecies (init mix) \<and> 0 \<le> mGlob \<and> mGlob < nElements (init mix)
            \<longrightarrow> fst (nAtoms kGlob mGlob mix) = Value (m_atoms (init mix) ! nat mGlob ! nat kGlob))"
proof -
  have run: "nAtoms kGlob mGlob mix = (mat_at (m_atoms (init mix)) mGlob kGlob, init mix)"
    using assms by (simp add: nAtoms_def Let_def)
  have no_raise: "\<forall>e. mat_at (m_atoms (init mix)) mGlob kGlob \<noteq> Raise e"
    by (simp add: mat_at_def)
  have in_range: "mat_at (m_atoms (init mix)) mGlob kGlob
                    = Value (m_atoms (init mix) ! nat mGlob ! nat kGlob)"
    if "0 \<le> kGlob" "kGlob < nSpecies (init mix)" "0 \<le> mGlob" "mGlob < nElements (init mix)"
  proof -
    from that have m: "nat mGlob < m_nel (init mix)" and k: "nat kGlob < m_nsp (init mix)"
      by (simp_all add: nElements_def nSpecies_def)
    with init_atoms_shape [OF assms] that show ?thesis
      by (simp add: mat_at_def)
  qed
  show ?thesis
    using run no_raise in_range init_sets_m_init [of mix] by simp
qed

theorem nAtoms_runs_init_witness:
  "\<not> m_init ex_pre \<and> fst (nAtoms 2 1 ex_pre) = Value 1 \<and> snd (nAtoms 2 1 ex_pre) = ex_mix"
proof -
  have pre: "\<not> m_init ex_pre"
    by (simp add: ex_pre_eq MultiPhase_def)
  from nAtoms_runs_init [OF pre, of 2 1]
  have "nAtoms 2 1 ex_pre = (mat_at (m_atoms ex_mix) 1 2, ex_mix)"
    by (simp add: ex_mix_def)
  moreover have "mat_at (m_atoms ex_mix) 1 2 = Value 1"
    by (simp add: ex_mix_eq mat_at_def)
  ultimately show ?thesis
    using pre by simp
qed

section \<open>Adding phases after initialization\<close>




section \<open>Mole fractions after setMoles\<close>



section \<open>Round trip of the mole vector\<close>




section \<open>Element moles\<close>

text \<open>
  C2.  On an initialized mixture and for a global element index \<open>m\<close>, the atom counts
  \<^verbatim>\<open>nAtoms(k, m)\<close> and the species moles \<^verbatim>\<open>speciesMoles(k)\<close> are values for
  every global species \<open>k\<close>, and \<^verbatim>\<open>elementMoles(m)\<close> is the sum over all global
  species of their products: the dot product of row \<open>m\<close> of the atom matrix with the
  vector of species moles.
\<close>

theorem elementMoles_dot_product:
  assumes "initialized mix" and m: "m < m_nel mix"
  shows "\<exists>a x. (\<forall>k < m_nsp mix.
                   fst (nAtoms (int k) (int m) mix) = Value (a k)
                   \<and> speciesMoles mix k = Value (x k))
             \<and> elementMoles mix m = Value (sum_list (map (\<lambda>k. a k * x k) [0..<m_nsp mix]))"
proof -
  let ?ps = "m_phase mix"
  define a where "a = (\<lambda>k. m_atoms mix ! m ! k)"
  define x where "x = (\<lambda>k. m_moleFractions mix ! k * m_moles mix ! nat (m_spphase mix ! k))"
  define off where "off = (\<lambda>ip. total_species (take ip ?ps))"
  define summand where "summand = (\<lambda>ip ik.
           obind (speciesIndex mix ik ip) (\<lambda>k.
           obind (mat_at (m_atoms mix) (int m) k) (\<lambda>a.
           obind (if 0 \<le> k then speciesMoles mix (nat k) else Undefined) (\<lambda>moles.
           Value (a * moles)))))"
  define phasesum where "phasesum = (\<lambda>ip.
        obind (vec_at ?ps ip) (\<lambda>ph.
        obind (collect (map (summand ip) [0..<phase_nSpecies ph])) (\<lambda>ts.
        Value (sum_list ts))))"
  define R where "R = (\<lambda>ip. sum_list (map (\<lambda>ik. a (off ip + ik) * x (off ip + ik))
                                      [0..<phase_nSpecies (?ps ! ip)]))"
  from assms(1) have init: "m_init mix" and nsp: "m_nsp mix = total_species ?ps"
    and np: "m_np mix = length ?ps" and st: "m_spstart mix = spstart_from 0 ?ps"
    by (simp_all add: initialized_def indexed_def constructed_def)
  have atoms: "fst (nAtoms (int k) (int m) mix) = Value (a k)" if "k < m_nsp mix" for k
    using init initialized_mat_at [OF assms that] by (simp add: nAtoms_def a_def)
  have moles: "speciesMoles mix k = Value (x k)" if "k < m_nsp mix" for k
    using initialized_speciesMoles [OF assms(1) that] by (simp add: x_def)
  have unfold: "elementMoles mix m
                  = obind (collect (map phasesum [0..<m_np mix])) (\<lambda>ss. Value (sum_list ss))"
    by (simp add: elementMoles_def phasesum_def summand_def)
  have phase: "phasesum ip = Value (R ip)" if ip: "ip \<in> set [0..<m_np mix]" for ip
  proof -
    from ip np have ip': "ip < length ?ps" by simp
    have each: "summand ip ik = Value (a (off ip + ik) * x (off ip + ik))"
      if ik: "ik \<in> set [0..<phase_nSpecies (?ps ! ip)]" for ik
    proof -
      from ik total_take_le [OF ip'] nsp have k: "off ip + ik < m_nsp mix"
        by (simp add: off_def)
      have "m_spstart mix ! ip = int (off ip)"
        using st spstart_from_nth [OF ip', of 0] by (simp add: off_def)
      then have "speciesIndex mix ik ip = Value (int (off ip + ik))"
        using ip' st by (simp add: speciesIndex_def vec_at_def)
      moreover have "mat_at (m_atoms mix) (int m) (int (off ip + ik)) = Value (a (off ip + ik))"
        using initialized_mat_at [OF assms k] by (simp add: a_def)
      moreover have "speciesMoles mix (nat (int (off ip + ik))) = Value (x (off ip + ik))"
        using moles [OF k] by (simp add: nat_int_add)
      ultimately show ?thesis
        by (simp add: summand_def del: of_nat_add)
    qed
    have "collect (map (summand ip) [0..<phase_nSpecies (?ps ! ip)])
            = Value (map (\<lambda>ik. a (off ip + ik) * x (off ip + ik)) [0..<phase_nSpecies (?ps ! ip)])"
      by (rule collect_map_Value) (rule each)
    then show ?thesis
      using ip' by (simp add: phasesum_def vec_at_def R_def)
  qed
  have "collect (map phasesum [0..<m_np mix]) = Value (map R [0..<m_np mix])"
    by (rule collect_map_Value) (rule phase)
  then have "elementMoles mix m = Value (sum_list (map R [0..<length ?ps]))"
    by (simp add: unfold np)
  also have "sum_list (map R [0..<length ?ps])
               = sum_list (map (\<lambda>k. a k * x k) [0..<total_species ?ps])"
    unfolding R_def off_def by (rule sum_by_phase [symmetric])
  finally have "elementMoles mix m = Value (sum_list (map (\<lambda>k. a k * x k) [0..<m_nsp mix]))"
    by (simp only: nsp)
  with atoms moles show ?thesis
    by blast
qed


theorem elementMoles_dot_product_witness:
  "initialized ex_mix \<and> (0::nat) < m_nel ex_mix \<and> elementMoles ex_mix 0 = Value (3 / 2)"
proof -
  have m: "(0::nat) < m_nel ex_mix" and nsp: "m_nsp ex_mix = 4"
    by (simp_all add: ex_mix_eq)
  from elementMoles_dot_product [OF ex_mix_initialized m] obtain a x where
    each: "\<forall>k < m_nsp ex_mix. fst (nAtoms (int k) (int 0) ex_mix) = Value (a k)
                                 \<and> speciesMoles ex_mix k = Value (x k)"
    and dot: "elementMoles ex_mix 0 = Value (sum_list (map (\<lambda>k. a k * x k) [0..<m_nsp ex_mix]))"
    by blast
  have "a 0 = 2 \<and> x 0 = 1 / 2" "a 1 = 0 \<and> x 1 = 1 / 4" "a 2 = 2 \<and> x 2 = 1 / 4" "a 3 = 0 \<and> x 3 = 2"
    using each [rule_format, of 0] each [rule_format, of 1] each [rule_format, of 2]
      each [rule_format, of 3]
    by (simp_all add: nsp ex_nAtoms_H ex_speciesMoles)
  with dot have "elementMoles ex_mix 0 = Value (3 / 2)"
    by (simp add: nsp upt_3)
  with m ex_mix_initialized show ?thesis by simp
qed

section \<open>Setting the moles by name\<close>





section \<open>Temperature validity\<close>





section \<open>Non-convergence of the solver\<close>

text \<open>
  C7.  Whatever the numerics, a call of \<^verbatim>\<open>equilibrate\<close> ends in one of two ways.
  Either it returns an error value, and then the state it leaves has a residual below
  \<open>err\<close> (and, when something other than (T,P) is held fixed, a mismatch below
  \<open>err\<close>), the value being the error of that state; or it raises \<open>ConvergenceError\<close>
  carrying the error of the state it stopped in.  In particular, at fixed (T,P), when
  none of the \<open>maxsteps\<close> iterates has a residual below \<open>err\<close>, it raises
  \<open>ConvergenceError\<close> with the residual of the last iterate.
\<close>

theorem equilibrate_signals:
  "(case equilibrate sv TP XY err maxsteps maxiter loglevel mix of
      (Value e, mix') \<Rightarrow>
        \<bar>sv_residual sv mix'\<bar> < err
        \<and> (if XY = TP then e = sv_residual sv mix'
            else \<bar>sv_mismatch sv XY mix'\<bar> < err \<and> e = sv_mismatch sv XY mix')
    | (Raise x, mix') \<Rightarrow>
        x = ConvergenceError (sv_residual sv mix')
        \<or> (XY \<noteq> TP \<and> x = ConvergenceError (sv_mismatch sv XY mix'))
    | (Undefined, mix') \<Rightarrow> False)
   \<and> (XY = TP \<and> (\<forall>i. 1 \<le> i \<and> i \<le> nat maxsteps
                       \<longrightarrow> \<not> \<bar>sv_residual sv ((sv_step sv ^^ i) mix)\<bar> < err)
        \<longrightarrow> equilibrate sv TP XY err maxsteps maxiter loglevel mix
              = (Raise (ConvergenceError (sv_residual sv ((sv_step sv ^^ nat maxsteps) mix))),
                 (sv_step sv ^^ nat maxsteps) mix))"
proof (intro conjI impI)
  show "case equilibrate sv TP XY err maxsteps maxiter loglevel mix of
      (Value e, mix') \<Rightarrow>
        \<bar>sv_residual sv mix'\<bar> < err
        \<and> (if XY = TP then e = sv_residual sv mix'
            else \<bar>sv_mismatch sv XY mix'\<bar> < err \<and> e = sv_mismatch sv XY mix')
    | (Raise x, mix') \<Rightarrow>
        x = ConvergenceError (sv_residual sv mix')
        \<or> (XY \<noteq> TP \<and> x = ConvergenceError (sv_mismatch sv XY mix'))
    | (Undefined, mix') \<Rightarrow> False"
  proof (cases "XY = TP")
    case True
    obtain r mix' where res: "solveTP sv err (nat maxsteps) mix = (r, mix')"
      by (cases "solveTP sv err (nat maxsteps) mix")
    with solveTP_signalled [of sv err "nat maxsteps" mix] True show ?thesis
      by (cases r) (simp_all add: equilibrate_def)
  next
    case False
    obtain r mix' where res: "solveOuter sv XY err (nat maxsteps) (nat maxiter) mix = (r, mix')"
      by (cases "solveOuter sv XY err (nat maxsteps) (nat maxiter) mix")
    with solveOuter_signalled [of sv XY err "nat maxsteps" "nat maxiter" mix] False show ?thesis
      by (cases r) (simp_all add: equilibrate_def signalled_def)
  qed
next
  assume "XY = TP \<and> (\<forall>i. 1 \<le> i \<and> i \<le> nat maxsteps
                       \<longrightarrow> \<not> \<bar>sv_residual sv ((sv_step sv ^^ i) mix)\<bar> < err)"
  then show "equilibrate sv TP XY err maxsteps maxiter loglevel mix
              = (Raise (ConvergenceError (sv_residual sv ((sv_step sv ^^ nat maxsteps) mix))),
                 (sv_step sv ^^ nat maxsteps) mix)"
    by (simp add: equilibrate_def solveTP_exhausted)
qed

theorem equilibrate_signals_witness:
  "equilibrate ex_solver 104 104 1 2 200 0 ex_mix
     = (Raise (ConvergenceError 400), ex_mix\<lparr> m_temp := 800 \<rparr>)
   \<and> equilibrate ex_solver 104 104 1 3 200 0 ex_mix = (Value 0, ex_mix\<lparr> m_temp := 1200 \<rparr>)"
proof -
  have T0: "m_temp ex_mix = 0"
    by (simp add: ex_mix_eq ex_pre_eq MultiPhase_def)
  have far: "\<forall>i. 1 \<le> i \<and> i \<le> nat 2
               \<longrightarrow> \<not> \<bar>sv_residual ex_solver ((sv_step ex_solver ^^ i) ex_mix)\<bar> < 1"
  proof (intro allI impI)
    fix i :: nat assume "1 \<le> i \<and> i \<le> nat 2"
    then have "i = Suc 0 \<or> i = Suc (Suc 0)" by auto
    then show "\<not> \<bar>sv_residual ex_solver ((sv_step ex_solver ^^ i) ex_mix)\<bar> < 1"
      by (auto simp: ex_solver_residual ex_solver_step T0)
  qed
  have "equilibrate ex_solver 104 104 1 2 200 0 ex_mix
          = (Raise (ConvergenceError (sv_residual ex_solver ((sv_step ex_solver ^^ nat 2) ex_mix))),
             (sv_step ex_solver ^^ nat 2) ex_mix)"
    by (rule equilibrate_signals [where sv = ex_solver and TP = 104 and XY = 104 and err = 1
            and maxsteps = 2 and maxiter = 200 and loglevel = 0 and mix = ex_mix,
          THEN conjunct2, THEN mp, OF conjI [OF refl far]])
  then have failed: "equilibrate ex_solver 104 104 1 2 200 0 ex_mix
          = (Raise (ConvergenceError 400), ex_mix\<lparr> m_temp := 800 \<rparr>)"
    by (simp add: ex_solver_residual ex_solver_steps T0)
  have "equilibrate ex_solver 104 104 1 3 200 0 ex_mix = (Value 0, ex_mix\<lparr> m_temp := 1200 \<rparr>)"
    by (simp add: equilibrate_def numeral_3_eq_3 Let_def T0 ex_solver_residual ex_solver_step)
  with failed show ?thesis by simp
qed

end
